theory Spec2Isabelle
  imports Main "HOL-Library.Sublist"
begin

section \<open>Python values used by the chatbot\<close>

text \<open>
  A Python \<open>str\<close> is a sequence of Unicode code points. It is modelled as a list of
  natural numbers (one per code point), so that \<open>str.strip\<close> can be given its real
  whitespace set, which reaches beyond ASCII. The literals of the source are ASCII and are
  written with \<open>py\<close>.
\<close>

type_synonym pystr = "nat list"

definition py :: "string \<Rightarrow> pystr" where
  "py s = map of_char s"

text \<open>
  \<open>str.isspace\<close> on one code point, as CPython's \<open>_PyUnicode_IsWhitespace\<close> decides it:
  U+0009..U+000D, U+001C..U+0020, U+0085, U+00A0, U+1680, U+2000..U+200A, U+2028, U+2029,
  U+202F, U+205F and U+3000.
\<close>

definition isspace :: "nat \<Rightarrow> bool" where
  "isspace c =
     ((9 \<le> c \<and> c \<le> 13) \<or> (28 \<le> c \<and> c \<le> 32) \<or> c = 133 \<or> c = 160 \<or> c = 5760 \<or>
      (8192 \<le> c \<and> c \<le> 8202) \<or> c = 8232 \<or> c = 8233 \<or> c = 8239 \<or> c = 8287 \<or>
      c = 12288)"

text \<open>\<open>s.strip()\<close> with no argument: whitespace is dropped at both ends.\<close>

definition strip :: "pystr \<Rightarrow> pystr" where
  "strip s = rev (dropWhile isspace (rev (dropWhile isspace s)))"

text \<open>
  What a call can raise. \<open>except Exception\<close> handles the instances of class
  \<open>Exception\<close> and nothing else: \<open>KeyboardInterrupt\<close>, \<open>SystemExit\<close>,
  \<open>GeneratorExit\<close> and every other class derived from \<open>BaseException\<close> alone pass
  through it. Each raised object carries the text \<open>str(e)\<close>.
\<close>

datatype raised =
    ExceptionInstance pystr
  | BaseExceptionOnly pystr

fun is_Exception :: "raised \<Rightarrow> bool" where
  "is_Exception (ExceptionInstance m) = True"
| "is_Exception (BaseExceptionOnly m) = False"

fun str_of :: "raised \<Rightarrow> pystr" where
  "str_of (ExceptionInstance m) = m"
| "str_of (BaseExceptionOnly m) = m"

section \<open>The Generator: \<open>backend.generate_response\<close>\<close>

text \<open>
  The tokenizer and the model are objects of an external library, loaded once at import.
  Their four operations used by \<open>generate_response\<close> are parameters of the model, each
  of them fallible: \<open>tokenizer.encode\<close>, \<open>model.generate\<close>, tensor indexing and
  \<open>tokenizer.decode\<close>. The type \<open>'t\<close> stands for the library's tensors.
\<close>

record generate_kwargs =
  max_length :: int
  num_return_sequences :: int
  no_repeat_ngram_size :: int

record 't runtime =
  encode :: "pystr \<Rightarrow> string \<Rightarrow> raised + 't"
  generate :: "'t \<Rightarrow> generate_kwargs \<Rightarrow> raised + 't"
  getitem :: "'t \<Rightarrow> int \<Rightarrow> raised + 't"
  decode :: "'t \<Rightarrow> bool \<Rightarrow> raised + pystr"

text \<open>
  \<^verbatim>\<open>
  def generate_response(prompt: str) -> str:
      inputs = tokenizer.encode(prompt, return_tensors="pt")
      outputs = model.generate(inputs, max_length=50, num_return_sequences=1,
                               no_repeat_ngram_size=2)
      response = tokenizer.decode(outputs[0], skip_special_tokens=True)
      return response
  \<close>
  An exception of any of the calls leaves the function at once.
\<close>

definition generate_response :: "'t runtime \<Rightarrow> pystr \<Rightarrow> raised + pystr" where
  "generate_response rt prompt =
     (case encode rt prompt ''pt'' of
        Inl e \<Rightarrow> Inl e
      | Inr inputs \<Rightarrow>
          (case generate rt inputs
                  \<lparr>max_length = 50, num_return_sequences = 1, no_repeat_ngram_size = 2\<rparr> of
             Inl e \<Rightarrow> Inl e
           | Inr outputs \<Rightarrow>
               (case getitem rt outputs 0 of
                  Inl e \<Rightarrow> Inl e
                | Inr row \<Rightarrow>
                    (case decode rt row True of
                       Inl e \<Rightarrow> Inl e
                     | Inr response \<Rightarrow> Inr response))))"

section \<open>The Session UI: the script \<open>app.py\<close>\<close>

text \<open>
  A transcript entry is the dict \<open>{"user": ..., "bot": ...}\<close>; the session state holds
  the list \<open>chat_log\<close> under its key, or does not hold the key yet.
\<close>

record entry =
  user :: pystr
  bot :: pystr

record session_state =
  chat_log :: "entry list option"

text \<open>What the script puts on the page, one element per call of the UI framework.\<close>

datatype element =
    Title pystr
  | Markdown pystr
  | TextInput pystr pystr
  | Button pystr
  | Error pystr
  | Write pystr

text \<open>
  The result of one run of the script: the session state it leaves, the elements it
  rendered, the exception that left the script (if one did), and a record of every call of
  the generator: the prompt passed and the transcript as it stood during the call.
\<close>

record outcome =
  session :: session_state
  page :: "element list"
  uncaught :: "raised option"
  generator_calls :: "(pystr \<times> entry list) list"

text \<open>
  \<^verbatim>\<open>
  if "chat_log" not in st.session_state:
      st.session_state.chat_log = []
  \<close>
  The list the session holds from here on.
\<close>

definition init_chat_log :: "session_state \<Rightarrow> entry list" where
  "init_chat_log ss = (case chat_log ss of None \<Rightarrow> [] | Some log \<Rightarrow> log)"

text \<open>
  \<open>chat_log[-1]["bot"] = v\<close>: the last dict of the list is changed in place; on an empty
  list the index raises \<open>IndexError\<close>.
\<close>

definition set_last_bot :: "entry list \<Rightarrow> pystr \<Rightarrow> raised + entry list" where
  "set_last_bot log v =
     (if log = [] then Inl (ExceptionInstance (py ''list index out of range''))
      else Inr (butlast log @ [(last log)\<lparr>bot := v\<rparr>]))"

text \<open>
  The body of \<open>if st.button("Send"):\<close>. It returns the transcript, the notices shown,
  the exception that escaped and the generator calls made.
  \<^verbatim>\<open>
  if user_input.strip() == "":
      st.error("Please enter a message.")
  else:
      st.session_state.chat_log.append({"user": user_input, "bot": "Thinking..."})
      try:
          bot_response = generate_response(user_input)
          st.session_state.chat_log[-1]["bot"] = bot_response
      except Exception as e:
          st.session_state.chat_log[-1]["bot"] = "Error: Unable to process your request."
          st.error(f"An error occurred: {e}")
  \<close>
\<close>

definition send_handler ::
  "(pystr \<Rightarrow> raised + pystr) \<Rightarrow> pystr \<Rightarrow> entry list \<Rightarrow>
   entry list \<times> element list \<times> raised option \<times> (pystr \<times> entry list) list" where
  "send_handler generator user_input log0 =
     (if strip user_input = [] then
        (log0, [Error (py ''Please enter a message.'')], None, [])
      else
        (let log1 = log0 @ [\<lparr>user = user_input, bot = py ''Thinking...''\<rparr>];
             calls = [(user_input, log1)]
         in case (case generator user_input of
                    Inl e \<Rightarrow> Inl e
                  | Inr bot_response \<Rightarrow> set_last_bot log1 bot_response) of
              Inr log2 \<Rightarrow> (log2, [], None, calls)
            | Inl e \<Rightarrow>
                (if is_Exception e then
                   (case set_last_bot log1 (py ''Error: Unable to process your request.'') of
                      Inl e' \<Rightarrow> (log1, [], Some e', calls)
                    | Inr log2 \<Rightarrow>
                        (log2, [Error (py ''An error occurred: '' @ str_of e)], None, calls))
                 else (log1, [], Some e, calls))))"

text \<open>
  \<^verbatim>\<open>
  st.write("### Chat Log:")
  for chat in st.session_state.chat_log:
      st.markdown(f"**You:** {chat['user']}")
      st.markdown(f"**Bot:** {chat['bot']}")
  \<close>
\<close>

fun chat_lines :: "entry list \<Rightarrow> element list" where
  "chat_lines [] = []"
| "chat_lines (chat # rest) =
     Markdown (py ''**You:** '' @ user chat) # Markdown (py ''**Bot:** '' @ bot chat) #
     chat_lines rest"

definition chat_display :: "entry list \<Rightarrow> element list" where
  "chat_display log = Write (py ''### Chat Log:'') # chat_lines log"

text \<open>
  One run of the whole script. The framework runs it from the top on every interaction:
  \<open>user_input\<close> is what \<open>st.text_input\<close> returns, \<open>send\<close> what \<open>st.button("Send")\<close>
  returns, and \<open>generator\<close> is the behaviour of \<open>generate_response\<close> during this run.
  An exception that leaves the handler ends the run before the chat display.
\<close>

definition script ::
  "(pystr \<Rightarrow> raised + pystr) \<Rightarrow> pystr \<Rightarrow> bool \<Rightarrow> session_state \<Rightarrow> outcome" where
  "script generator user_input send ss =
     (let top = [Title (py ''Chatbot Application''),
                 Markdown (py ''This is a simple chatbot interface built using Streamlit.'')];
          log0 = init_chat_log ss;
          widgets = [TextInput (py ''Type your message:'') (py ''input_box''),
                     Button (py ''Send'')];
          (log1, notices, exc, calls) =
             (if send then send_handler generator user_input log0 else (log0, [], None, []))
      in \<lparr>session = ss\<lparr>chat_log := Some log1\<rparr>,
          page = top @ widgets @ notices @
                 (case exc of None \<Rightarrow> chat_display log1 | Some e \<Rightarrow> []),
          uncaught = exc,
          generator_calls = calls\<rparr>)"

text \<open>
  A session: the state before the first run holds no \<open>chat_log\<close>; each interaction is a
  run of the script, given as the generator's behaviour, the text of the input box and
  whether the button was pressed. The state persists from run to run, also after a run
  that an exception ended.
\<close>

definition fresh_session :: session_state where
  "fresh_session = \<lparr>chat_log = None\<rparr>"

fun run_session ::
  "session_state \<Rightarrow> ((pystr \<Rightarrow> raised + pystr) \<times> pystr \<times> bool) list \<Rightarrow> session_state" where
  "run_session ss [] = ss"
| "run_session ss ((generator, user_input, send) # rest) =
     run_session (session (script generator user_input send ss)) rest"

section \<open>Vocabulary of the specification and example collaborators\<close>

text \<open>
  The specification calls an entry pending while its bot text is the sentinel
  \<open>"Thinking..."\<close>.
\<close>

definition pending :: "entry \<Rightarrow> bool" where
  "pending e = (bot e = py ''Thinking...'')"

text \<open>
  Three runtimes for the examples. In \<open>echo_runtime\<close> a tensor is a batch of code point
  sequences and the model stops at once: the generated sequence is the prompt itself, as a
  causal language model returns it when the end-of-text token comes first and decoding
  skips it. In \<open>constant_runtime\<close> every call succeeds and decoding gives a fixed text.
  In \<open>faulty_runtime\<close> the call of \<open>model.generate\<close> raises.
\<close>

definition echo_runtime :: "nat list list runtime" where
  "echo_runtime =
     \<lparr>encode = (\<lambda>prompt return_tensors. Inr [prompt]),
      generate = (\<lambda>inputs kwargs. Inr inputs),
      getitem = (\<lambda>t i. if 0 \<le> i \<and> i < int (length t) then Inr [t ! nat i]
                         else Inl (ExceptionInstance (py ''index out of range''))),
      decode = (\<lambda>t skip_special_tokens.
                  case t of [row] \<Rightarrow> Inr row
                  | _ \<Rightarrow> Inl (ExceptionInstance (py ''not a sequence'')))\<rparr>"

definition constant_runtime :: "pystr \<Rightarrow> unit runtime" where
  "constant_runtime text =
     \<lparr>encode = (\<lambda>prompt return_tensors. Inr ()),
      generate = (\<lambda>inputs kwargs. Inr ()),
      getitem = (\<lambda>t i. Inr ()),
      decode = (\<lambda>t skip_special_tokens. Inr text)\<rparr>"

definition faulty_runtime :: "raised \<Rightarrow> unit runtime" where
  "faulty_runtime e =
     \<lparr>encode = (\<lambda>prompt return_tensors. Inr ()),
      generate = (\<lambda>inputs kwargs. Inl e),
      getitem = (\<lambda>t i. Inr ()),
      decode = (\<lambda>t skip_special_tokens. Inr [])\<rparr>"

section \<open>Basic facts\<close>

lemma py_eq_iff: "py a = py b \<longleftrightarrow> a = b"
  by (simp add: py_def inj_map_eq_map[OF inj_of_char])

text \<open>The test \<open>user_input.strip() == ""\<close> holds exactly for the whitespace-only strings.\<close>

lemma strip_empty_iff: "strip s = [] \<longleftrightarrow> (\<forall>c\<in>set s. isspace c)"
proof
  assume "strip s = []"
  then have all: "\<forall>x\<in>set (dropWhile isspace s). isspace x"
    by (simp add: strip_def)
  have "dropWhile isspace s = []"
  proof (rule ccontr)
    assume ne: "dropWhile isspace s \<noteq> []"
    then have "\<not> isspace (hd (dropWhile isspace s))"
      by (rule hd_dropWhile)
    moreover have "hd (dropWhile isspace s) \<in> set (dropWhile isspace s)"
      using ne by simp
    ultimately show False using all by blast
  qed
  then show "\<forall>c\<in>set s. isspace c"
    by simp
next
  assume "\<forall>c\<in>set s. isspace c"
  then have "dropWhile isspace s = []"
    by simp
  then show "strip s = []"
    by (simp add: strip_def del: dropWhile_eq_Nil_conv)
qed

lemma strip_Hello: "strip (py ''Hello'') \<noteq> []"
  by (simp add: py_def strip_def isspace_def)

lemma strip_Hi: "strip (py ''Hi'') \<noteq> []"
  by (simp add: py_def strip_def isspace_def)

lemma strip_Thinking: "strip (py ''Thinking...'') \<noteq> []"
  by (simp add: py_def strip_def isspace_def)

lemma strip_spaces: "strip (py ''   '') = []"
  by (simp add: py_def strip_def isspace_def)

lemma generate_response_echo: "generate_response echo_runtime prompt = Inr prompt"
  by (simp add: generate_response_def echo_runtime_def)

lemma generate_response_constant: "generate_response (constant_runtime text) prompt = Inr text"
  by (simp add: generate_response_def constant_runtime_def)

lemma generate_response_faulty: "generate_response (faulty_runtime e) prompt = Inl e"
  by (simp add: generate_response_def faulty_runtime_def)

lemma pending_placeholder: "pending \<lparr>user = u, bot = py ''Thinking...''\<rparr>"
  by (simp add: pending_def)

lemma pending_error_marker:
  "\<not> pending \<lparr>user = u, bot = py ''Error: Unable to process your request.''\<rparr>"
  by (simp add: pending_def py_eq_iff)

subsection \<open>The four ways through the handler\<close>

lemma set_last_bot_snoc: "set_last_bot (xs @ [e]) v = Inr (xs @ [e\<lparr>bot := v\<rparr>])"
  by (simp add: set_last_bot_def)

lemma send_handler_invalid:
  "strip user_input = [] \<Longrightarrow>
   send_handler generator user_input log0 =
     (log0, [Error (py ''Please enter a message.'')], None, [])"
  by (simp add: send_handler_def)

lemma send_handler_returned:
  "strip user_input \<noteq> [] \<Longrightarrow> generator user_input = Inr R \<Longrightarrow>
   send_handler generator user_input log0 =
     (log0 @ [\<lparr>user = user_input, bot = R\<rparr>], [], None,
      [(user_input, log0 @ [\<lparr>user = user_input, bot = py ''Thinking...''\<rparr>])])"
  by (simp add: send_handler_def Let_def set_last_bot_snoc)

lemma send_handler_caught:
  "strip user_input \<noteq> [] \<Longrightarrow> generator user_input = Inl e \<Longrightarrow> is_Exception e \<Longrightarrow>
   send_handler generator user_input log0 =
     (log0 @ [\<lparr>user = user_input, bot = py ''Error: Unable to process your request.''\<rparr>],
      [Error (py ''An error occurred: '' @ str_of e)], None,
      [(user_input, log0 @ [\<lparr>user = user_input, bot = py ''Thinking...''\<rparr>])])"
  by (simp add: send_handler_def Let_def set_last_bot_snoc)

lemma send_handler_escaped:
  "strip user_input \<noteq> [] \<Longrightarrow> generator user_input = Inl e \<Longrightarrow> \<not> is_Exception e \<Longrightarrow>
   send_handler generator user_input log0 =
     (log0 @ [\<lparr>user = user_input, bot = py ''Thinking...''\<rparr>], [], Some e,
      [(user_input, log0 @ [\<lparr>user = user_input, bot = py ''Thinking...''\<rparr>])])"
  by (simp add: send_handler_def Let_def set_last_bot_snoc)

text \<open>Whatever the generator does, a valid submission adds one entry for the input.\<close>

lemma send_handler_valid:
  assumes "strip user_input \<noteq> []"
  shows "\<exists>b notices exc.
           send_handler generator user_input log0 =
             (log0 @ [\<lparr>user = user_input, bot = b\<rparr>], notices, exc,
              [(user_input, log0 @ [\<lparr>user = user_input, bot = py ''Thinking...''\<rparr>])])"
proof (cases "generator user_input")
  case (Inr R)
  with assms show ?thesis
    by (simp add: send_handler_returned)
next
  case (Inl e)
  show ?thesis
  proof (cases "is_Exception e")
    case True
    with assms Inl show ?thesis
      by (simp add: send_handler_caught)
  next
    case False
    with assms Inl show ?thesis
      by (simp add: send_handler_escaped)
  qed
qed

subsection \<open>One run of the script\<close>

lemma init_chat_log_update: "init_chat_log (ss\<lparr>chat_log := Some log\<rparr>) = log"
  by (simp add: init_chat_log_def)

lemma init_chat_log_fresh: "init_chat_log fresh_session = []"
  by (simp add: init_chat_log_def fresh_session_def)

lemma script_no_send:
  "script generator user_input False ss =
     \<lparr>session = ss\<lparr>chat_log := Some (init_chat_log ss)\<rparr>,
      page = [Title (py ''Chatbot Application''),
              Markdown (py ''This is a simple chatbot interface built using Streamlit.''),
              TextInput (py ''Type your message:'') (py ''input_box''),
              Button (py ''Send'')] @ chat_display (init_chat_log ss),
      uncaught = None,
      generator_calls = []\<rparr>"
  by (simp add: script_def Let_def)

lemma script_send:
  "script generator user_input True ss =
     (case send_handler generator user_input (init_chat_log ss) of
        (log1, notices, exc, calls) \<Rightarrow>
          \<lparr>session = ss\<lparr>chat_log := Some log1\<rparr>,
           page = [Title (py ''Chatbot Application''),
                   Markdown (py ''This is a simple chatbot interface built using Streamlit.''),
                   TextInput (py ''Type your message:'') (py ''input_box''),
                   Button (py ''Send'')] @ notices @
                  (case exc of None \<Rightarrow> chat_display log1 | Some e \<Rightarrow> []),
           uncaught = exc,
           generator_calls = calls\<rparr>)"
  by (simp add: script_def Let_def)

text \<open>A run adds the input to the users of the transcript exactly when it is a valid submission.\<close>

lemma script_users:
  "map user (init_chat_log (session (script generator user_input send ss))) =
     map user (init_chat_log ss) @
     (if send \<and> strip user_input \<noteq> [] then [user_input] else [])"
proof (cases "send \<and> strip user_input \<noteq> []")
  case True
  then obtain b notices exc where
    "send_handler generator user_input (init_chat_log ss) =
       (init_chat_log ss @ [\<lparr>user = user_input, bot = b\<rparr>], notices, exc,
        [(user_input, init_chat_log ss @ [\<lparr>user = user_input, bot = py ''Thinking...''\<rparr>])])"
    using send_handler_valid by blast
  with True show ?thesis
    by (simp add: script_send init_chat_log_update)
next
  case False
  then show ?thesis
    by (cases send)
      (simp_all add: script_no_send script_send send_handler_invalid init_chat_log_update)
qed

text \<open>No run removes or changes an entry that was in the transcript before it.\<close>

lemma script_prefix:
  "prefix (init_chat_log ss) (init_chat_log (session (script generator user_input send ss)))"
proof (cases "send \<and> strip user_input \<noteq> []")
  case True
  then obtain b notices exc where
    "send_handler generator user_input (init_chat_log ss) =
       (init_chat_log ss @ [\<lparr>user = user_input, bot = b\<rparr>], notices, exc,
        [(user_input, init_chat_log ss @ [\<lparr>user = user_input, bot = py ''Thinking...''\<rparr>])])"
    using send_handler_valid by blast
  with True show ?thesis
    by (simp add: script_send init_chat_log_update)
next
  case False
  then show ?thesis
    by (cases send)
      (simp_all add: script_no_send script_send send_handler_invalid init_chat_log_update)
qed

text \<open>Whatever the generator does, a valid submission is taken: one entry for the input is
  added and the generator is called once, with the input, while that entry is pending.\<close>

lemma script_valid_submission:
  assumes "strip user_input \<noteq> []"
  shows "\<exists>b. chat_log (session (script generator user_input True ss)) =
               Some (init_chat_log ss @ [\<lparr>user = user_input, bot = b\<rparr>])"
    and "generator_calls (script generator user_input True ss) =
           [(user_input, init_chat_log ss @ [\<lparr>user = user_input, bot = py ''Thinking...''\<rparr>])]"
proof -
  obtain b notices exc where
    "send_handler generator user_input (init_chat_log ss) =
       (init_chat_log ss @ [\<lparr>user = user_input, bot = b\<rparr>], notices, exc,
        [(user_input, init_chat_log ss @ [\<lparr>user = user_input, bot = py ''Thinking...''\<rparr>])])"
    using send_handler_valid [OF assms] by blast
  then show
    "\<exists>b. chat_log (session (script generator user_input True ss)) =
               Some (init_chat_log ss @ [\<lparr>user = user_input, bot = b\<rparr>])"
    "generator_calls (script generator user_input True ss) =
           [(user_input, init_chat_log ss @ [\<lparr>user = user_input, bot = py ''Thinking...''\<rparr>])]"
    by (simp_all add: script_send)
qed

text \<open>A run that no exception ends shows the transcript it leaves, below everything else.\<close>

lemma script_page_suffix:
  "uncaught (script generator user_input send ss) = None \<Longrightarrow>
   suffix (chat_display (init_chat_log (session (script generator user_input send ss))))
     (page (script generator user_input send ss))"
  by (cases send)
    (auto simp: script_no_send script_send init_chat_log_update suffix_def split: prod.splits)

lemma chat_lines_append: "chat_lines (xs @ ys) = chat_lines xs @ chat_lines ys"
  by (induction xs) simp_all

text \<open>The chat lines, written without the loop: a user line and a bot line for each entry, in
  the order of the list.\<close>

lemma chat_lines_concat:
  "chat_lines log =
     concat (map (\<lambda>chat. [Markdown (py ''**You:** '' @ user chat),
                           Markdown (py ''**Bot:** '' @ bot chat)]) log)"
  by (induction log) simp_all

subsection \<open>Sessions\<close>

lemma run_session_prefix:
  "prefix (init_chat_log ss) (init_chat_log (run_session ss events))"
proof (induction events arbitrary: ss)
  case Nil
  show ?case by simp
next
  case (Cons ev events)
  obtain generator user_input send where ev: "ev = (generator, user_input, send)"
    by (cases ev)
  have "prefix (init_chat_log ss)
          (init_chat_log (session (script generator user_input send ss)))"
    by (rule script_prefix)
  also have "prefix \<dots>
          (init_chat_log (run_session (session (script generator user_input send ss)) events))"
    by (rule Cons.IH)
  finally show ?case
    by (simp add: ev)
qed

lemma run_session_users:
  "\<forall>u\<in>set (map user (init_chat_log ss)). strip u \<noteq> [] \<Longrightarrow>
   \<forall>u\<in>set (map user (init_chat_log (run_session ss events))). strip u \<noteq> []"
proof (induction events arbitrary: ss)
  case Nil
  then show ?case by simp
next
  case (Cons ev events)
  obtain generator user_input send where ev: "ev = (generator, user_input, send)"
    by (cases ev)
  have "\<forall>u\<in>set (map user (init_chat_log (session (script generator user_input send ss)))).
          strip u \<noteq> []"
    using Cons.prems by (simp only: script_users) auto
  then show ?case
    unfolding ev run_session.simps by (rule Cons.IH)
qed

section \<open>Properties of the Generator\<close>

text \<open>
  C5. For every prompt, \<open>generate_response\<close> returns a text exactly when the prompt is
  encoded into tokens (as a tensor, \<open>return_tensors="pt"\<close>), generation is invoked on them
  with a maximum length of 50, one returned sequence and a no-repeat n-gram size of 2, and
  the first generated sequence is decoded with the special tokens skipped; the text
  returned is the decoded one.
\<close>

theorem generate_response_pipeline:
  "generate_response rt prompt = Inr response \<longleftrightarrow>
     (\<exists>inputs outputs row.
        encode rt prompt ''pt'' = Inr inputs \<and>
        generate rt inputs
          \<lparr>max_length = 50, num_return_sequences = 1, no_repeat_ngram_size = 2\<rparr> = Inr outputs \<and>
        getitem rt outputs 0 = Inr row \<and>
        decode rt row True = Inr response)"
  by (auto simp: generate_response_def split: sum.splits)

theorem generate_response_pipeline_witness:
  "generate_response echo_runtime (py ''Hello'') = Inr (py ''Hello'')"
  using generate_response_pipeline [of echo_runtime "py ''Hello''" "py ''Hello''"]
  by (simp add: echo_runtime_def)



section \<open>Properties of a submission\<close>

text \<open>
  C1, as the code has it. For every submission whose input is non-empty after stripping
  and whose generator call returns the string \<open>R\<close>, the transcript afterwards is the one
  before with one entry added at its end, whose user field is the submitted input and whose
  bot field is \<open>R\<close>; the bot field differs from the placeholder \<open>"Thinking..."\<close> exactly
  when \<open>R\<close> does. No exception leaves the run.
\<close>

theorem submission_success:
  assumes "strip user_input \<noteq> []" and "generator user_input = Inr R"
  shows "let out = script generator user_input True ss;
             transcript = init_chat_log (session out)
         in chat_log (session out) =
              Some (init_chat_log ss @ [\<lparr>user = user_input, bot = R\<rparr>]) \<and>
            user (last transcript) = user_input \<and>
            bot (last transcript) = R \<and>
            (bot (last transcript) \<noteq> py ''Thinking...'' \<longleftrightarrow> R \<noteq> py ''Thinking...'') \<and>
            uncaught out = None"
  using assms
  by (simp add: Let_def script_send send_handler_returned init_chat_log_update)

theorem submission_success_witness:
  "chat_log (session (script (generate_response (constant_runtime (py ''Hi there'')))
      (py ''Hello'') True fresh_session)) =
     Some [\<lparr>user = py ''Hello'', bot = py ''Hi there''\<rparr>] \<and>
   py ''Hi there'' \<noteq> py ''Thinking...''"
  using submission_success [of "py ''Hello''"
      "generate_response (constant_runtime (py ''Hi there''))" "py ''Hi there''" fresh_session]
  by (simp add: Let_def strip_Hello generate_response_constant init_chat_log_fresh py_eq_iff)

text \<open>
  As the specification words it, the property fails when the generator returns the
  placeholder's own text: the user submits \<open>Thinking...\<close> and the model stops at once, so
  that the decoded sequence is the prompt.
\<close>

theorem placeholder_response_counterexample:
  "strip (py ''Thinking...'') \<noteq> [] \<and>
   generate_response echo_runtime (py ''Thinking...'') = Inr (py ''Thinking...'') \<and>
   bot (last (init_chat_log (session
     (script (generate_response echo_runtime) (py ''Thinking...'') True fresh_session)))) =
     py ''Thinking...''"
  by (simp add: strip_Thinking generate_response_echo script_send send_handler_returned
      init_chat_log_update)

text \<open>
  C2, as the code has it. For every submission with valid input where the generator call
  raises an instance of \<open>Exception\<close>, the transcript's last entry ends with the bot text
  \<open>"Error: Unable to process your request."\<close>, a notice carrying the failure's own
  description is shown, no exception leaves the run, and the session takes the next
  submission: a valid input then adds its entry after the failed one, and the generator
  is called with it.
\<close>

theorem generation_error_recovered:
  assumes "strip user_input \<noteq> []" and "generator user_input = Inl e" and "is_Exception e"
  shows "let out = script generator user_input True ss;
             transcript = init_chat_log ss @
               [\<lparr>user = user_input, bot = py ''Error: Unable to process your request.''\<rparr>]
         in chat_log (session out) = Some transcript \<and>
            bot (last (init_chat_log (session out))) =
              py ''Error: Unable to process your request.'' \<and>
            Error (py ''An error occurred: '' @ str_of e) \<in> set (page out) \<and>
            uncaught out = None \<and>
            (strip next_input \<noteq> [] \<longrightarrow>
               (\<exists>b. chat_log (session (script next_generator next_input True (session out))) =
                      Some (transcript @ [\<lparr>user = next_input, bot = b\<rparr>])) \<and>
               map fst (generator_calls (script next_generator next_input True (session out))) =
                 [next_input])"
proof -
  define transcript where "transcript = init_chat_log ss @
    [\<lparr>user = user_input, bot = py ''Error: Unable to process your request.''\<rparr>]"
  define out where "out = script generator user_input True ss"
  have handled: "send_handler generator user_input (init_chat_log ss) =
      (transcript, [Error (py ''An error occurred: '' @ str_of e)], None,
       [(user_input, init_chat_log ss @ [\<lparr>user = user_input, bot = py ''Thinking...''\<rparr>])])"
    using assms by (simp add: send_handler_caught transcript_def)
  have after: "session out = ss\<lparr>chat_log := Some transcript\<rparr>"
    by (simp add: out_def script_send handled)
  have shown: "Error (py ''An error occurred: '' @ str_of e) \<in> set (page out)"
    by (simp add: out_def script_send handled)
  have quiet: "uncaught out = None"
    by (simp add: out_def script_send handled)
  have last_bot: "bot (last (init_chat_log (session out))) =
      py ''Error: Unable to process your request.''"
    by (simp add: after init_chat_log_update transcript_def)
  have accepted: "(\<exists>b. chat_log (session (script next_generator next_input True (session out))) =
                      Some (transcript @ [\<lparr>user = next_input, bot = b\<rparr>])) \<and>
               map fst (generator_calls (script next_generator next_input True (session out))) =
                 [next_input]"
    if valid: "strip next_input \<noteq> []"
    using script_valid_submission [OF valid, of next_generator "session out"]
    by (simp add: after init_chat_log_update)
  have "chat_log (session out) = Some transcript"
    by (simp add: after)
  with last_bot shown quiet accepted show ?thesis
    unfolding Let_def out_def [symmetric] transcript_def [symmetric] by blast
qed

theorem generation_error_recovered_witness:
  "chat_log (session (script (generate_response (faulty_runtime
       (ExceptionInstance (py ''CUDA out of memory'')))) (py ''Hello'') True fresh_session)) =
     Some [\<lparr>user = py ''Hello'', bot = py ''Error: Unable to process your request.''\<rparr>] \<and>
   Error (py ''An error occurred: '' @ py ''CUDA out of memory'') \<in>
     set (page (script (generate_response (faulty_runtime
       (ExceptionInstance (py ''CUDA out of memory'')))) (py ''Hello'') True fresh_session)) \<and>
   uncaught (script (generate_response (faulty_runtime
       (ExceptionInstance (py ''CUDA out of memory'')))) (py ''Hello'') True fresh_session) = None \<and>
   (\<exists>b. chat_log (session (script (generate_response echo_runtime) (py ''Hi'') True
       (session (script (generate_response (faulty_runtime
          (ExceptionInstance (py ''CUDA out of memory'')))) (py ''Hello'') True fresh_session)))) =
     Some [\<lparr>user = py ''Hello'', bot = py ''Error: Unable to process your request.''\<rparr>,
           \<lparr>user = py ''Hi'', bot = b\<rparr>])"
proof -
  have valid: "strip (py ''Hello'') \<noteq> []"
    by (rule strip_Hello)
  have raises: "generate_response (faulty_runtime (ExceptionInstance (py ''CUDA out of memory'')))
      (py ''Hello'') = Inl (ExceptionInstance (py ''CUDA out of memory''))"
    by (rule generate_response_faulty)
  have inst: "is_Exception (ExceptionInstance (py ''CUDA out of memory''))"
    by simp
  show ?thesis
    using generation_error_recovered [of "py ''Hello''"
        "generate_response (faulty_runtime (ExceptionInstance (py ''CUDA out of memory'')))"
        "ExceptionInstance (py ''CUDA out of memory'')" fresh_session "py ''Hi''"
        "generate_response echo_runtime"] valid raises inst
    by (simp add: Let_def strip_Hi init_chat_log_fresh)
qed

text \<open>
  As the specification words it, the property fails for what \<open>except Exception\<close> lets
  through: a raised object that is no instance of \<open>Exception\<close> (a keyboard interrupt, a
  system exit, the panic of a compiled extension). It leaves the run, no notice is shown,
  the chat display is not reached, and the entry keeps its placeholder.
\<close>

theorem base_exception_counterexample:
  "strip (py ''Hello'') \<noteq> [] \<and>
   generate_response (faulty_runtime (BaseExceptionOnly [])) (py ''Hello'') =
     Inl (BaseExceptionOnly []) \<and>
   uncaught (script (generate_response (faulty_runtime (BaseExceptionOnly []))) (py ''Hello'')
     True fresh_session) = Some (BaseExceptionOnly []) \<and>
   bot (last (init_chat_log (session (script
     (generate_response (faulty_runtime (BaseExceptionOnly []))) (py ''Hello'')
     True fresh_session)))) = py ''Thinking...'' \<and>
   py ''Thinking...'' \<noteq> py ''Error: Unable to process your request.'' \<and>
   page (script (generate_response (faulty_runtime (BaseExceptionOnly []))) (py ''Hello'')
     True fresh_session) =
     [Title (py ''Chatbot Application''),
      Markdown (py ''This is a simple chatbot interface built using Streamlit.''),
      TextInput (py ''Type your message:'') (py ''input_box''),
      Button (py ''Send'')]"
  by (simp add: strip_Hello generate_response_faulty script_send send_handler_escaped
      init_chat_log_update py_eq_iff)

text \<open>
  C3. For every submission whose input is empty or consists only of whitespace, the
  validation notice is shown, no entry is appended, the generator is not called (the run
  is the same whatever the generator is), and the transcript is left as it was.
\<close>

theorem blank_input_rejected:
  assumes "user_input = [] \<or> (\<forall>c\<in>set user_input. isspace c)"
  shows "let out = script generator user_input True ss
         in Error (py ''Please enter a message.'') \<in> set (page out) \<and>
            chat_log (session out) = Some (init_chat_log ss) \<and>
            length (init_chat_log (session out)) = length (init_chat_log ss) \<and>
            generator_calls out = [] \<and>
            uncaught out = None \<and>
            out = script other_generator user_input True ss"
proof -
  from assms have "\<forall>c\<in>set user_input. isspace c"
    by auto
  then have "strip user_input = []"
    by (simp only: strip_empty_iff)
  then show ?thesis
    by (simp add: Let_def script_send send_handler_invalid init_chat_log_update)
qed

theorem blank_input_rejected_witness:
  "chat_log (session (script (generate_response echo_runtime) (py ''   '') True
      (fresh_session\<lparr>chat_log := Some [\<lparr>user = py ''Hi'', bot = py ''Hi''\<rparr>]\<rparr>))) =
     Some [\<lparr>user = py ''Hi'', bot = py ''Hi''\<rparr>] \<and>
   generator_calls (script (generate_response echo_runtime) (py ''   '') True
      (fresh_session\<lparr>chat_log := Some [\<lparr>user = py ''Hi'', bot = py ''Hi''\<rparr>]\<rparr>)) = [] \<and>
   Error (py ''Please enter a message.'') \<in>
     set (page (script (generate_response echo_runtime) (py ''   '') True
      (fresh_session\<lparr>chat_log := Some [\<lparr>user = py ''Hi'', bot = py ''Hi''\<rparr>]\<rparr>)))"
  using blank_input_rejected [of "py ''   ''" "generate_response echo_runtime"
      "fresh_session\<lparr>chat_log := Some [\<lparr>user = py ''Hi'', bot = py ''Hi''\<rparr>]\<rparr>"]
  by (simp add: Let_def init_chat_log_update py_def isspace_def)

section \<open>Properties of the transcript\<close>

text \<open>
  C4, as the code has it. During the generation call of every valid submission the
  transcript is the one before the submission with one entry added at its end, and that
  entry carries the sentinel \<open>"Thinking..."\<close>: it is the only pending entry whenever no
  entry before it carries that text. When the call returns a text, the entry's bot field
  becomes that text, and when it raises an instance of \<open>Exception\<close>, the error marker,
  before the run ends and so before the next submission; the pending entries are then
  those from before the submission (none, if there were none), provided the returned text
  is not the sentinel itself.
\<close>

theorem pending_entry_during_call:
  assumes "strip user_input \<noteq> []"
  shows "let before = init_chat_log ss;
             during = before @ [\<lparr>user = user_input, bot = py ''Thinking...''\<rparr>];
             out = script generator user_input True ss;
             after = init_chat_log (session out)
         in generator_calls out = [(user_input, during)] \<and>
            pending (last during) \<and>
            butlast during = before \<and>
            (filter pending before = [] \<longrightarrow> filter pending during = [last during]) \<and>
            (generator user_input = Inr R \<longrightarrow>
                 after = before @ [\<lparr>user = user_input, bot = R\<rparr>] \<and>
                 (R \<noteq> py ''Thinking...'' \<longrightarrow> filter pending after = filter pending before)) \<and>
            (generator user_input = Inl e \<and> is_Exception e \<longrightarrow>
                 after = before @
                   [\<lparr>user = user_input, bot = py ''Error: Unable to process your request.''\<rparr>] \<and>
                 filter pending after = filter pending before)"
proof -
  have calls: "generator_calls (script generator user_input True ss) =
      [(user_input, init_chat_log ss @ [\<lparr>user = user_input, bot = py ''Thinking...''\<rparr>])]"
    using assms by (rule script_valid_submission)
  have returned: "init_chat_log (session (script generator user_input True ss)) =
        init_chat_log ss @ [\<lparr>user = user_input, bot = R\<rparr>] \<and>
      (R \<noteq> py ''Thinking...'' \<longrightarrow>
         filter pending (init_chat_log (session (script generator user_input True ss))) =
         filter pending (init_chat_log ss))"
    if "generator user_input = Inr R"
    using assms that
    by (simp add: script_send send_handler_returned init_chat_log_update pending_def)
  have caught: "init_chat_log (session (script generator user_input True ss)) =
        init_chat_log ss @
          [\<lparr>user = user_input, bot = py ''Error: Unable to process your request.''\<rparr>] \<and>
      filter pending (init_chat_log (session (script generator user_input True ss))) =
        filter pending (init_chat_log ss)"
    if "generator user_input = Inl e \<and> is_Exception e"
    using assms that
    by (simp add: script_send send_handler_caught init_chat_log_update pending_error_marker)
  have last_pending:
    "pending (last (init_chat_log ss @ [\<lparr>user = user_input, bot = py ''Thinking...''\<rparr>]))"
    by (simp add: pending_placeholder)
  have earlier:
    "butlast (init_chat_log ss @ [\<lparr>user = user_input, bot = py ''Thinking...''\<rparr>]) =
       init_chat_log ss"
    by simp
  have only_one:
    "filter pending (init_chat_log ss) = [] \<longrightarrow>
     filter pending (init_chat_log ss @ [\<lparr>user = user_input, bot = py ''Thinking...''\<rparr>]) =
       [last (init_chat_log ss @ [\<lparr>user = user_input, bot = py ''Thinking...''\<rparr>])]"
    by (simp add: pending_placeholder del: filter_empty_conv)
  show ?thesis
    unfolding Let_def
    using calls returned caught last_pending earlier only_one by blast
qed

theorem pending_entry_during_call_witness:
  "generator_calls (script (generate_response (constant_runtime (py ''Hi there'')))
      (py ''Hello'') True fresh_session) =
     [(py ''Hello'', [\<lparr>user = py ''Hello'', bot = py ''Thinking...''\<rparr>])] \<and>
   filter pending [\<lparr>user = py ''Hello'', bot = py ''Thinking...''\<rparr>] =
     [\<lparr>user = py ''Hello'', bot = py ''Thinking...''\<rparr>] \<and>
   init_chat_log (session (script (generate_response (constant_runtime (py ''Hi there'')))
      (py ''Hello'') True fresh_session)) = [\<lparr>user = py ''Hello'', bot = py ''Hi there''\<rparr>] \<and>
   filter pending (init_chat_log (session (script
      (generate_response (constant_runtime (py ''Hi there''))) (py ''Hello'') True
      fresh_session))) = [] \<and>
   filter pending (init_chat_log (session (script
      (generate_response (faulty_runtime (ExceptionInstance (py ''CUDA out of memory''))))
      (py ''Hello'') True fresh_session))) = []"
  using pending_entry_during_call [OF strip_Hello, of fresh_session
      "generate_response (constant_runtime (py ''Hi there''))" "py ''Hi there''"
      "ExceptionInstance []"]
    pending_entry_during_call [OF strip_Hello, of fresh_session
      "generate_response (faulty_runtime (ExceptionInstance (py ''CUDA out of memory'')))" "[]"
      "ExceptionInstance (py ''CUDA out of memory'')"]
  by (simp add: Let_def generate_response_constant generate_response_faulty
      init_chat_log_fresh py_eq_iff pending_def)

text \<open>
  As the specification words it, the property fails in two ways. A generator that returns
  the sentinel's own text leaves an entry that counts as pending outside every call, and
  two of them during the next call; and a raised object that is no instance of
  \<open>Exception\<close> leaves the entry pending after the run.
\<close>

theorem two_pending_counterexample:
  "length (filter pending (snd (hd (generator_calls
     (script (generate_response echo_runtime) (py ''Thinking...'') True
       (session (script (generate_response echo_runtime) (py ''Thinking...'') True
          fresh_session))))))) = 2 \<and>
   filter pending (init_chat_log (session
     (script (generate_response echo_runtime) (py ''Thinking...'') True fresh_session))) =
     [\<lparr>user = py ''Thinking...'', bot = py ''Thinking...''\<rparr>] \<and>
   filter pending (init_chat_log (session
     (script (generate_response (faulty_runtime (BaseExceptionOnly []))) (py ''Hello'') True
        fresh_session))) =
     [\<lparr>user = py ''Hello'', bot = py ''Thinking...''\<rparr>]"
  by (simp add: strip_Thinking strip_Hello generate_response_echo generate_response_faulty
      script_send send_handler_returned send_handler_escaped init_chat_log_update
      init_chat_log_fresh pending_def)

text \<open>
  C7. In every session, submitting the valid input \<open>A\<close> and then the valid input \<open>B\<close>,
  with responses \<open>respA\<close> and \<open>respB\<close>, yields the transcript of before followed by
  \<open>{A, respA}\<close> and \<open>{B, respB}\<close> in that order (these two alone in a new session).
  The page after the second submission is the head of the script, the heading of the chat
  log, then for each earlier entry in turn its user line and its bot line, then the user
  line and the bot line of \<open>A\<close>, then those of \<open>B\<close>: the display follows the append
  order, oldest first. The page after the first submission ends likewise with the lines
  of \<open>A\<close>.
\<close>

theorem transcript_order:
  assumes "strip A \<noteq> []" and "strip B \<noteq> []"
    and "generatorA A = Inr respA" and "generatorB B = Inr respB"
  shows "let first = script generatorA A True ss;
             second = script generatorB B True (session first);
             transcript = init_chat_log ss @
               [\<lparr>user = A, bot = respA\<rparr>, \<lparr>user = B, bot = respB\<rparr>];
             earlier_lines =
               concat (map (\<lambda>chat. [Markdown (py ''**You:** '' @ user chat),
                                     Markdown (py ''**Bot:** '' @ bot chat)])
                         (init_chat_log ss))
         in chat_log (session second) = Some transcript \<and>
            suffix (chat_display transcript) (page second) \<and>
            chat_lines transcript =
              chat_lines (init_chat_log ss) @
              [Markdown (py ''**You:** '' @ A), Markdown (py ''**Bot:** '' @ respA),
               Markdown (py ''**You:** '' @ B), Markdown (py ''**Bot:** '' @ respB)] \<and>
            page first =
              [Title (py ''Chatbot Application''),
               Markdown (py ''This is a simple chatbot interface built using Streamlit.''),
               TextInput (py ''Type your message:'') (py ''input_box''),
               Button (py ''Send''),
               Write (py ''### Chat Log:'')] @
              earlier_lines @
              [Markdown (py ''**You:** '' @ A), Markdown (py ''**Bot:** '' @ respA)] \<and>
            page second =
              [Title (py ''Chatbot Application''),
               Markdown (py ''This is a simple chatbot interface built using Streamlit.''),
               TextInput (py ''Type your message:'') (py ''input_box''),
               Button (py ''Send''),
               Write (py ''### Chat Log:'')] @
              earlier_lines @
              [Markdown (py ''**You:** '' @ A), Markdown (py ''**Bot:** '' @ respA),
               Markdown (py ''**You:** '' @ B), Markdown (py ''**Bot:** '' @ respB)]"
proof -
  have lines: "chat_lines (init_chat_log ss) =
      concat (map (\<lambda>chat. [Markdown (py ''**You:** '' @ user chat),
                            Markdown (py ''**Bot:** '' @ bot chat)]) (init_chat_log ss))"
    by (rule chat_lines_concat)
  have first_run: "script generatorA A True ss =
      \<lparr>session = ss\<lparr>chat_log := Some (init_chat_log ss @ [\<lparr>user = A, bot = respA\<rparr>])\<rparr>,
       page = [Title (py ''Chatbot Application''),
               Markdown (py ''This is a simple chatbot interface built using Streamlit.''),
               TextInput (py ''Type your message:'') (py ''input_box''),
               Button (py ''Send'')] @ [] @
              chat_display (init_chat_log ss @ [\<lparr>user = A, bot = respA\<rparr>]),
       uncaught = None,
       generator_calls = [(A, init_chat_log ss @ [\<lparr>user = A, bot = py ''Thinking...''\<rparr>])]\<rparr>"
    using assms(1,3) by (simp add: script_send send_handler_returned)
  have second_run:
    "script generatorB B True (ss\<lparr>chat_log := Some (init_chat_log ss @ [\<lparr>user = A, bot = respA\<rparr>])\<rparr>) =
      \<lparr>session = ss\<lparr>chat_log := Some (init_chat_log ss @
                  [\<lparr>user = A, bot = respA\<rparr>, \<lparr>user = B, bot = respB\<rparr>])\<rparr>,
       page = [Title (py ''Chatbot Application''),
               Markdown (py ''This is a simple chatbot interface built using Streamlit.''),
               TextInput (py ''Type your message:'') (py ''input_box''),
               Button (py ''Send'')] @ [] @
              chat_display (init_chat_log ss @
                  [\<lparr>user = A, bot = respA\<rparr>, \<lparr>user = B, bot = respB\<rparr>]),
       uncaught = None,
       generator_calls =
         [(B, init_chat_log ss @ [\<lparr>user = A, bot = respA\<rparr>, \<lparr>user = B, bot = py ''Thinking...''\<rparr>])]\<rparr>"
    using assms(2,4) by (simp add: script_send send_handler_returned init_chat_log_update)
  show ?thesis
    unfolding Let_def first_run
    by (simp add: second_run chat_display_def chat_lines_append suffix_def lines [symmetric])
qed

theorem transcript_order_witness:
  "chat_log (session (script (generate_response echo_runtime) (py ''Hi'') True
     (session (script (generate_response (constant_runtime (py ''Hi there''))) (py ''Hello'')
        True fresh_session)))) =
     Some [\<lparr>user = py ''Hello'', bot = py ''Hi there''\<rparr>, \<lparr>user = py ''Hi'', bot = py ''Hi''\<rparr>] \<and>
   page (script (generate_response echo_runtime) (py ''Hi'') True
     (session (script (generate_response (constant_runtime (py ''Hi there''))) (py ''Hello'')
        True fresh_session))) =
     [Title (py ''Chatbot Application''),
      Markdown (py ''This is a simple chatbot interface built using Streamlit.''),
      TextInput (py ''Type your message:'') (py ''input_box''),
      Button (py ''Send''),
      Write (py ''### Chat Log:''),
      Markdown (py ''**You:** '' @ py ''Hello''), Markdown (py ''**Bot:** '' @ py ''Hi there''),
      Markdown (py ''**You:** '' @ py ''Hi''), Markdown (py ''**Bot:** '' @ py ''Hi'')]"
proof -
  have respA: "generate_response (constant_runtime (py ''Hi there'')) (py ''Hello'') =
      Inr (py ''Hi there'')"
    by (rule generate_response_constant)
  have respB: "generate_response echo_runtime (py ''Hi'') = Inr (py ''Hi'')"
    by (rule generate_response_echo)
  show ?thesis
    using transcript_order [of "py ''Hello''" "py ''Hi''"
        "generate_response (constant_runtime (py ''Hi there''))" "py ''Hi there''"
        "generate_response echo_runtime" "py ''Hi''" fresh_session]
      strip_Hello strip_Hi respA respB
    by (simp add: Let_def init_chat_log_fresh)
qed

text \<open>
  C8, as the code has it. The entry of a valid submission is created with the bot field
  \<open>"Thinking..."\<close>, which is what the transcript holds during the generator call; when
  the call returns a text or raises an instance of \<open>Exception\<close>, the entry is changed
  once, in its bot field only, to that text or to the error marker. The change leaves the
  user field and every earlier entry as they were, and no run, nor any sequence of runs,
  deletes or changes an entry that the transcript held before it.
\<close>

theorem entry_resolved_in_place:
  "(strip user_input \<noteq> [] \<longrightarrow>
      (let before = init_chat_log ss;
           created = \<lparr>user = user_input, bot = py ''Thinking...''\<rparr>;
           out = script generator user_input True ss;
           after = init_chat_log (session out)
       in generator_calls out = [(user_input, before @ [created])] \<and>
          (generator user_input = Inr R \<longrightarrow> after = before @ [created\<lparr>bot := R\<rparr>]) \<and>
          (generator user_input = Inl e \<and> is_Exception e \<longrightarrow>
               after = before @
                 [created\<lparr>bot := py ''Error: Unable to process your request.''\<rparr>]) \<and>
          butlast after = before \<and>
          user (last after) = user created)) \<and>
   prefix (init_chat_log ss) (init_chat_log (session (script generator user_input send ss))) \<and>
   prefix (init_chat_log ss) (init_chat_log (run_session ss events))"
proof (intro conjI impI)
  assume valid: "strip user_input \<noteq> []"
  have calls: "generator_calls (script generator user_input True ss) =
      [(user_input, init_chat_log ss @ [\<lparr>user = user_input, bot = py ''Thinking...''\<rparr>])]"
    using valid by (rule script_valid_submission)
  obtain b where after:
    "chat_log (session (script generator user_input True ss)) =
       Some (init_chat_log ss @ [\<lparr>user = user_input, bot = b\<rparr>])"
    using script_valid_submission(1) [OF valid] by blast
  have shape: "init_chat_log (session (script generator user_input True ss)) =
      init_chat_log ss @ [\<lparr>user = user_input, bot = b\<rparr>]"
    using after by (simp add: init_chat_log_def)
  have returned: "init_chat_log (session (script generator user_input True ss)) =
      init_chat_log ss @ [\<lparr>user = user_input, bot = py ''Thinking...''\<rparr>\<lparr>bot := R\<rparr>]"
    if "generator user_input = Inr R"
    using valid that by (simp add: script_send send_handler_returned init_chat_log_update)
  have caught: "init_chat_log (session (script generator user_input True ss)) =
      init_chat_log ss @ [\<lparr>user = user_input, bot = py ''Thinking...''\<rparr>
        \<lparr>bot := py ''Error: Unable to process your request.''\<rparr>]"
    if "generator user_input = Inl e \<and> is_Exception e"
    using valid that by (simp add: script_send send_handler_caught init_chat_log_update)
  have frame: "butlast (init_chat_log (session (script generator user_input True ss))) =
      init_chat_log ss"
    "user (last (init_chat_log (session (script generator user_input True ss)))) =
      user \<lparr>user = user_input, bot = py ''Thinking...''\<rparr>"
    by (simp_all add: shape)
  show "let before = init_chat_log ss;
           created = \<lparr>user = user_input, bot = py ''Thinking...''\<rparr>;
           out = script generator user_input True ss;
           after = init_chat_log (session out)
       in generator_calls out = [(user_input, before @ [created])] \<and>
          (generator user_input = Inr R \<longrightarrow> after = before @ [created\<lparr>bot := R\<rparr>]) \<and>
          (generator user_input = Inl e \<and> is_Exception e \<longrightarrow>
               after = before @
                 [created\<lparr>bot := py ''Error: Unable to process your request.''\<rparr>]) \<and>
          butlast after = before \<and>
          user (last after) = user created"
    unfolding Let_def using calls returned caught frame by blast
next
  show "prefix (init_chat_log ss)
      (init_chat_log (session (script generator user_input send ss)))"
    by (rule script_prefix)
next
  show "prefix (init_chat_log ss) (init_chat_log (run_session ss events))"
    by (rule run_session_prefix)
qed

theorem entry_resolved_in_place_witness:
  "generator_calls (script (generate_response (constant_runtime (py ''Hi there'')))
      (py ''Hello'') True fresh_session) =
     [(py ''Hello'', [\<lparr>user = py ''Hello'', bot = py ''Thinking...''\<rparr>])] \<and>
   init_chat_log (session (script (generate_response (constant_runtime (py ''Hi there'')))
      (py ''Hello'') True fresh_session)) = [\<lparr>user = py ''Hello'', bot = py ''Hi there''\<rparr>] \<and>
   init_chat_log (session (script
      (generate_response (faulty_runtime (ExceptionInstance (py ''CUDA out of memory''))))
      (py ''Hello'') True fresh_session)) =
     [\<lparr>user = py ''Hello'', bot = py ''Error: Unable to process your request.''\<rparr>] \<and>
   prefix [\<lparr>user = py ''Hello'', bot = py ''Hi there''\<rparr>]
     (init_chat_log (run_session
        (fresh_session\<lparr>chat_log := Some [\<lparr>user = py ''Hello'', bot = py ''Hi there''\<rparr>]\<rparr>)
        [(generate_response echo_runtime, py ''Hi'', True)]))"
  using entry_resolved_in_place [of "py ''Hello''" fresh_session
      "generate_response (constant_runtime (py ''Hi there''))" "py ''Hi there''"
      "ExceptionInstance []" True "[]"]
    entry_resolved_in_place [of "py ''Hello''" fresh_session
      "generate_response (faulty_runtime (ExceptionInstance (py ''CUDA out of memory'')))" "[]"
      "ExceptionInstance (py ''CUDA out of memory'')" True "[]"]
    entry_resolved_in_place [of "py ''Hello''"
      "fresh_session\<lparr>chat_log := Some [\<lparr>user = py ''Hello'', bot = py ''Hi there''\<rparr>]\<rparr>"
      "generate_response (constant_runtime (py ''Hi there''))" "[]" "ExceptionInstance []" True
      "[(generate_response echo_runtime, py ''Hi'', True)]"]
  by (simp add: Let_def strip_Hello generate_response_constant generate_response_faulty
      init_chat_log_fresh init_chat_log_update)

text \<open>
  As the specification words it, the property fails when the generator raises an object
  that is no instance of \<open>Exception\<close>: the entry is never changed, and later runs leave
  it with the placeholder.
\<close>

theorem unresolved_entry_counterexample:
  "generate_response (faulty_runtime (BaseExceptionOnly [])) (py ''Hello'') =
     Inl (BaseExceptionOnly []) \<and>
   chat_log (session (script (generate_response (faulty_runtime (BaseExceptionOnly [])))
      (py ''Hello'') True fresh_session)) =
     Some [\<lparr>user = py ''Hello'', bot = py ''Thinking...''\<rparr>] \<and>
   chat_log (run_session fresh_session
      [(generate_response (faulty_runtime (BaseExceptionOnly [])), py ''Hello'', True),
       (generate_response echo_runtime, py ''Hi'', False),
       (generate_response echo_runtime, py ''Hi'', True)]) =
     Some [\<lparr>user = py ''Hello'', bot = py ''Thinking...''\<rparr>, \<lparr>user = py ''Hi'', bot = py ''Hi''\<rparr>]"
  by (simp add: strip_Hello strip_Hi generate_response_faulty generate_response_echo script_send
      script_no_send send_handler_escaped send_handler_returned init_chat_log_update
      init_chat_log_fresh)

section \<open>Properties of the display and of the session\<close>

text \<open>
  C9. Rendering twice with no submission in between gives the same page both times, and
  leaves the transcript as it was; the page is the fixed head of the script followed by
  the chat display of the transcript, so two states with the same transcript are rendered
  alike, whatever the input box holds.
\<close>

theorem display_idempotent:
  "(let first = script generator1 input1 False ss;
        second = script generator2 input2 False (session first)
    in page second = page first \<and>
       init_chat_log (session first) = init_chat_log ss \<and>
       session second = session first \<and>
       page first =
         [Title (py ''Chatbot Application''),
          Markdown (py ''This is a simple chatbot interface built using Streamlit.''),
          TextInput (py ''Type your message:'') (py ''input_box''),
          Button (py ''Send'')] @ chat_display (init_chat_log ss)) \<and>
   (init_chat_log ss' = init_chat_log ss \<longrightarrow>
      page (script generator2 input2 False ss') = page (script generator1 input1 False ss))"
  by (simp add: Let_def script_no_send init_chat_log_update)

theorem display_idempotent_witness:
  "page (script (generate_response echo_runtime) (py ''Hi'') False
     (session (script (generate_response echo_runtime) [] False
       (fresh_session\<lparr>chat_log := Some [\<lparr>user = py ''Hello'', bot = py ''Hi there''\<rparr>]\<rparr>)))) =
   page (script (generate_response echo_runtime) [] False
       (fresh_session\<lparr>chat_log := Some [\<lparr>user = py ''Hello'', bot = py ''Hi there''\<rparr>]\<rparr>)) \<and>
   page (script (generate_response echo_runtime) [] False
       (fresh_session\<lparr>chat_log := Some [\<lparr>user = py ''Hello'', bot = py ''Hi there''\<rparr>]\<rparr>)) =
     [Title (py ''Chatbot Application''),
      Markdown (py ''This is a simple chatbot interface built using Streamlit.''),
      TextInput (py ''Type your message:'') (py ''input_box''),
      Button (py ''Send''),
      Write (py ''### Chat Log:''),
      Markdown (py ''**You:** '' @ py ''Hello''),
      Markdown (py ''**Bot:** '' @ py ''Hi there'')] \<and>
   init_chat_log (fresh_session\<lparr>chat_log := Some []\<rparr>) = init_chat_log fresh_session \<and>
   page (script (generate_response echo_runtime) (py ''Hi'') False
       (fresh_session\<lparr>chat_log := Some []\<rparr>)) =
     page (script (generate_response (constant_runtime [])) [] False fresh_session)"
  using display_idempotent [of "generate_response echo_runtime" "[]"
      "fresh_session\<lparr>chat_log := Some [\<lparr>user = py ''Hello'', bot = py ''Hi there''\<rparr>]\<rparr>"
      "generate_response echo_runtime" "py ''Hi''"
      "fresh_session\<lparr>chat_log := Some [\<lparr>user = py ''Hello'', bot = py ''Hi there''\<rparr>]\<rparr>"]
    display_idempotent [of "generate_response (constant_runtime [])" "[]" fresh_session
      "generate_response echo_runtime" "py ''Hi''" "fresh_session\<lparr>chat_log := Some []\<rparr>"]
  by (simp add: Let_def init_chat_log_update init_chat_log_fresh chat_display_def)

text \<open>
  C10. In every state a session can reach, the user field of every transcript entry is
  non-empty and not made of whitespace only: stripping it leaves something.
\<close>

theorem user_fields_not_blank:
  "\<forall>e\<in>set (init_chat_log (run_session fresh_session events)).
     user e \<noteq> [] \<and> strip (user e) \<noteq> [] \<and> \<not> (\<forall>c\<in>set (user e). isspace c)"
proof
  fix e
  assume "e \<in> set (init_chat_log (run_session fresh_session events))"
  then have "user e \<in> set (map user (init_chat_log (run_session fresh_session events)))"
    by simp
  moreover have "\<forall>u\<in>set (map user (init_chat_log (run_session fresh_session events))).
      strip u \<noteq> []"
    by (rule run_session_users) (simp add: init_chat_log_fresh)
  ultimately have stripped: "strip (user e) \<noteq> []"
    by blast
  then have "\<not> (\<forall>c\<in>set (user e). isspace c)"
    by (simp only: strip_empty_iff not_False_eq_True)
  moreover from stripped have "user e \<noteq> []"
    by (auto simp: strip_def)
  ultimately show "user e \<noteq> [] \<and> strip (user e) \<noteq> [] \<and> \<not> (\<forall>c\<in>set (user e). isspace c)"
    using stripped by blast
qed

theorem user_fields_not_blank_witness:
  "init_chat_log (run_session fresh_session
     [(generate_response echo_runtime, py ''   '', True),
      (generate_response (faulty_runtime (BaseExceptionOnly [])), py ''Hello'', True),
      (generate_response echo_runtime, py ''Hi'', True)]) =
     [\<lparr>user = py ''Hello'', bot = py ''Thinking...''\<rparr>, \<lparr>user = py ''Hi'', bot = py ''Hi''\<rparr>] \<and>
   strip (py ''Hello'') \<noteq> [] \<and> strip (py ''Hi'') \<noteq> []"
proof -
  have run: "init_chat_log (run_session fresh_session
     [(generate_response echo_runtime, py ''   '', True),
      (generate_response (faulty_runtime (BaseExceptionOnly [])), py ''Hello'', True),
      (generate_response echo_runtime, py ''Hi'', True)]) =
     [\<lparr>user = py ''Hello'', bot = py ''Thinking...''\<rparr>, \<lparr>user = py ''Hi'', bot = py ''Hi''\<rparr>]"
    by (simp add: strip_Hello strip_Hi strip_spaces generate_response_faulty
        generate_response_echo script_send
        send_handler_invalid send_handler_escaped send_handler_returned init_chat_log_update
        init_chat_log_fresh)
  show ?thesis
    using user_fields_not_blank [of "[(generate_response echo_runtime, py ''   '', True),
      (generate_response (faulty_runtime (BaseExceptionOnly [])), py ''Hello'', True),
      (generate_response echo_runtime, py ''Hi'', True)]"]
    unfolding run by simp
qed

end
